theory Spec2Isabelle
  imports
    Main
    "HOL-Library.Word"
    "HOL-Library.Sublist"
    "HOL-Library.Char_ord"
    "HOL-Library.List_Lexorder"
begin

section \<open>The CodeTango barrier client (src/src/codetango.cpp, src/include/codetango.h)\<close>

text \<open>
  A \<open>std::string\<close> is a sequence of bytes: \<^typ>\<open>string\<close>, that is \<^typ>\<open>char list\<close>.
  \<open>std::map<std::string, ...>\<close> orders its keys with \<open>std::less<std::string>\<close>, the
  lexicographic order of the bytes read as unsigned values; this is the order that
  \<open>HOL-Library.Char_ord\<close> and \<open>HOL-Library.List_Lexorder\<close> put on \<^typ>\<open>string\<close>.
\<close>

subsection \<open>Characters the source names by escape sequences\<close>

definition dquote :: char where "dquote = CHR 0x22"
definition backslash :: char where "backslash = CHR 0x5C"
definition NUL :: char where "NUL = CHR 0x00"

text \<open>
  Plain \<open>char\<close> is taken as signed, as on x86: \<open>(int)c\<close> and the comparisons
  \<open>'\x00' <= c && c <= '\x1f'\<close> read the byte as a signed 8-bit value. Where
  \<open>char\<close> is unsigned the comparisons select the same bytes, 0 to 31 (lemma
  \<open>char_to_int_ctrl\<close>).
\<close>

definition char_to_int :: "char \<Rightarrow> int" where
  "char_to_int c = (let n = of_char c in if n < 128 then n else n - 256)"

subsection \<open>Stream formatting: \<open>ss << value\<close>\<close>

text \<open>Decimal digits of a natural number, most significant first.\<close>

function show_nat :: "nat \<Rightarrow> string" where
  "show_nat n =
     (if n < 10 then [char_of (48 + n)]
      else show_nat (n div 10) @ [char_of (48 + n mod 10)])"
  by pat_completeness auto
termination
  by (relation "measure id") auto

declare show_nat.simps [simp del]

text \<open>\<open>ss << value\<close> for an \<open>int\<close> in the default (decimal) mode.\<close>

definition show_int :: "int \<Rightarrow> string" where
  "show_int i = (if i < 0 then CHR ''-'' # show_nat (nat (- i)) else show_nat (nat i))"

text \<open>\<open>ss << std::hex << n\<close> for a non-negative \<open>int\<close>: lower-case hexadecimal digits.\<close>

definition hex_digit :: "nat \<Rightarrow> char" where
  "hex_digit d = (if d < 10 then char_of (48 + d) else char_of (87 + d))"

function show_hex :: "nat \<Rightarrow> string" where
  "show_hex n =
     (if n < 16 then [hex_digit n]
      else show_hex (n div 16) @ [hex_digit (n mod 16)])"
  by pat_completeness auto
termination
  by (relation "measure id") auto

declare show_hex.simps [simp del]

text \<open>\<open>std::setw(w) << std::setfill(c)\<close>: pad on the left up to width \<open>w\<close>.\<close>

definition setw_setfill :: "nat \<Rightarrow> char \<Rightarrow> string \<Rightarrow> string" where
  "setw_setfill w c s = replicate (w - length s) c @ s"

subsection \<open>\<open>Barrier::escape_json_string\<close>\<close>

text \<open>One iteration of the loop body: the \<open>switch (c)\<close> with its \<open>default\<close> branch.\<close>

definition escape_char :: "char \<Rightarrow> string" where
  "escape_char c =
     (if c = dquote then [backslash, dquote]
      else if c = backslash then [backslash, backslash]
      else if c = CHR 0x08 then [backslash, CHR ''b'']
      else if c = CHR 0x0C then [backslash, CHR ''f'']
      else if c = CHR 0x0A then [backslash, CHR ''n'']
      else if c = CHR 0x0D then [backslash, CHR ''r'']
      else if c = CHR 0x09 then [backslash, CHR ''t'']
      else if char_to_int NUL \<le> char_to_int c \<and> char_to_int c \<le> char_to_int (CHR 0x1F)
        then [backslash, CHR ''u''] @ setw_setfill 4 (CHR ''0'') (show_hex (nat (char_to_int c)))
      else [c])"

fun escape_json_string :: "string \<Rightarrow> string" where
  "escape_json_string [] = []"
| "escape_json_string (c # cs) = escape_char c @ escape_json_string cs"

subsection \<open>A standard JSON string decoder (RFC 8259, section 7)\<close>






subsection \<open>The variable registry: \<open>std::map<std::string, std::pair<std::string, std::string>>\<close>\<close>

text \<open>
  The map is kept as the list of its entries in iteration order. An entry is
  \<open>(name, (type, value))\<close>, the value already rendered as text by the add call.
\<close>

type_synonym registry = "(string \<times> (string \<times> string)) list"

text \<open>
  \<open>m[key] = value\<close> on a \<open>std::map\<close>: walk the entries in key order, overwrite the entry
  of an equal key, otherwise insert before the first larger key.
\<close>

fun map_assign :: "'k::linorder \<Rightarrow> 'v \<Rightarrow> ('k \<times> 'v) list \<Rightarrow> ('k \<times> 'v) list" where
  "map_assign k v [] = [(k, v)]"
| "map_assign k v ((k', v') # rest) =
     (if k < k' then (k, v) # (k', v') # rest
      else if k = k' then (k, v) # rest
      else (k', v') # map_assign k v rest)"

subsection \<open>The client object\<close>

text \<open>
  The data members of \<open>class Barrier\<close>. The source writes them with a trailing underscore
  (\<open>program_id\<close>, \<open>socket_fd\<close>, \<open>connected\<close>, \<open>variables\<close>, each followed by an
  underscore), which Isabelle reserves for internal names; here they carry the prefix \<open>m_\<close>.
\<close>

record Barrier =
  m_program_id :: string
  m_socket_fd :: int
  m_connected :: bool
  m_variables :: registry

text \<open>
  Every failure of the source is a \<open>std::runtime_error\<close>; the constructors name the
  three kinds of the specification, \<open>what\<close> gives the message the source throws.
\<close>

datatype connect_stage = SocketFailed | ConnectFailed | InitSendFailed

datatype error = ConfigurationError | ConnectionError connect_stage | NotConnectedError

fun what :: "error \<Rightarrow> string \<Rightarrow> string" where
  "what ConfigurationError strerror = ''CODETANGO_SOCKET environment variable not set''"
| "what (ConnectionError SocketFailed) strerror = ''Failed to create socket: '' @ strerror"
| "what (ConnectionError ConnectFailed) strerror = ''Failed to connect to CodeTango: '' @ strerror"
| "what (ConnectionError InitSendFailed) strerror = ''Failed to send init message: '' @ strerror"
| "what NotConnectedError strerror = ''Not connected to CodeTango utility''"

text \<open>The system calls and the writes to \<open>std::cerr\<close> a member function performs, in order.\<close>

datatype io_event =
    SysSocket
  | SysConnect int string
  | SysSend int string
  | SysRecv int nat
  | SysClose int
  | Stderr string

fun sent_messages :: "io_event list \<Rightarrow> string list" where
  "sent_messages [] = []"
| "sent_messages (SysSend fd msg # evs) = msg # sent_messages evs"
| "sent_messages (ev # evs) = sent_messages evs"

fun closes :: "io_event list \<Rightarrow> int list" where
  "closes [] = []"
| "closes (SysClose fd # evs) = fd # closes evs"
| "closes (ev # evs) = closes evs"

fun connection_io :: "io_event list \<Rightarrow> io_event list" where
  "connection_io [] = []"
| "connection_io (Stderr msg # evs) = connection_io evs"
| "connection_io (ev # evs) = ev # connection_io evs"

subsection \<open>The typed add operations\<close>

text \<open>
  The loop \<open>for (size_t i = 0; i < values.size(); ++i) { if (i > 0) ss << ","; ss << values[i]; }\<close>
  of \<open>add_int_vector\<close> and \<open>add_double_vector\<close>, with the element formatter as argument.
\<close>

function vector_loop :: "('a \<Rightarrow> string) \<Rightarrow> 'a list \<Rightarrow> nat \<Rightarrow> string" where
  "vector_loop fmt values i =
     (if i < length values
      then (if i > 0 then '','' else []) @ fmt (values ! i) @ vector_loop fmt values (Suc i)
      else [])"
  by pat_completeness auto
termination
  by (relation "measure (\<lambda>(fmt, values, i). length values - i)") auto

declare vector_loop.simps [simp del]

text \<open>
  An \<open>int\<close> is a 32-bit signed integer. The text \<open>ss << value\<close> produces for a \<open>double\<close>
  is the work of the C++ stream library on a floating-point number; it is the parameter
  \<open>fmt_double\<close> of the two operations that use it, the type of doubles the type variable.
\<close>

definition add_int :: "string \<Rightarrow> 32 word \<Rightarrow> Barrier \<Rightarrow> Barrier" where
  "add_int name v s =
     s\<lparr>m_variables := map_assign name (''int'', show_int (sint v)) (m_variables s)\<rparr>"

definition add_double :: "('d \<Rightarrow> string) \<Rightarrow> string \<Rightarrow> 'd \<Rightarrow> Barrier \<Rightarrow> Barrier" where
  "add_double fmt_double name v s =
     s\<lparr>m_variables := map_assign name (''double'', fmt_double v) (m_variables s)\<rparr>"

definition add_string :: "string \<Rightarrow> string \<Rightarrow> Barrier \<Rightarrow> Barrier" where
  "add_string name v s =
     s\<lparr>m_variables := map_assign name (''string'', v) (m_variables s)\<rparr>"

definition add_bool :: "string \<Rightarrow> bool \<Rightarrow> Barrier \<Rightarrow> Barrier" where
  "add_bool name v s =
     s\<lparr>m_variables := map_assign name (''bool'', if v then ''true'' else ''false'') (m_variables s)\<rparr>"

definition add_int_vector :: "string \<Rightarrow> 32 word list \<Rightarrow> Barrier \<Rightarrow> Barrier" where
  "add_int_vector name values s =
     s\<lparr>m_variables :=
         map_assign name
           (''int_vector'', ''['' @ vector_loop (\<lambda>v. show_int (sint v)) values 0 @ '']'')
           (m_variables s)\<rparr>"

definition add_double_vector ::
    "('d \<Rightarrow> string) \<Rightarrow> string \<Rightarrow> 'd list \<Rightarrow> Barrier \<Rightarrow> Barrier" where
  "add_double_vector fmt_double name values s =
     s\<lparr>m_variables :=
         map_assign name
           (''double_vector'', ''['' @ vector_loop fmt_double values 0 @ '']'')
           (m_variables s)\<rparr>"

subsection \<open>\<open>Barrier::make_barrier_json\<close>\<close>

text \<open>What one iteration of the range-for over the registry appends after the comma.\<close>

fun member_text :: "string \<times> string \<times> string \<Rightarrow> string" where
  "member_text (name, type, value) =
     (let escaped_name = escape_json_string name;
          value' = (if type = ''string''
                    then [dquote] @ escape_json_string value @ [dquote]
                    else value)
      in [dquote] @ escaped_name @ [dquote] @ '':'' @ value')"

text \<open>The range-for itself, with its \<open>first\<close> flag.\<close>

fun members_loop :: "bool \<Rightarrow> registry \<Rightarrow> string" where
  "members_loop first [] = []"
| "members_loop first (var # vars) =
     (if \<not> first then '','' else []) @ member_text var @ members_loop False vars"

definition make_barrier_json :: "Barrier \<Rightarrow> string \<Rightarrow> string" where
  \<open>make_barrier_json s barrier_id =
     ''{'' @ ''"barrier_id":"'' @ barrier_id @ ''",'' @ ''"variables":{''
     @ members_loop True (m_variables s) @ ''}}''\<close>

subsection \<open>\<open>Barrier::wait\<close>\<close>

text \<open>
  What the coordinator and the kernel do during one call: the value \<open>send\<close> returns, and
  either a failing \<open>recv\<close> or the bytes waiting on the connection (none when the peer has
  closed it). \<open>recv\<close> copies as many of them as its length argument allows.
\<close>

datatype recv_outcome = RecvError | RecvData string

record wait_env =
  send_result :: int
  recv_data :: recv_outcome
  strerror_errno :: string

definition sys_recv :: "recv_outcome \<Rightarrow> nat \<Rightarrow> int \<times> string" where
  "sys_recv outcome len =
     (case outcome of
        RecvError \<Rightarrow> (- 1, [])
      | RecvData bytes \<Rightarrow> (int (length (take len bytes)), take len bytes))"

definition sizeof_buffer :: nat where "sizeof_buffer = 4096"

text \<open>\<open>std::string(const char*)\<close>: the bytes up to the first NUL.\<close>

definition c_string :: "string \<Rightarrow> string" where
  "c_string buffer = takeWhile (\<lambda>c. c \<noteq> NUL) buffer"

text \<open>\<open>haystack.find(needle)\<close>: the first position of the needle, \<open>None\<close> for \<open>npos\<close>.\<close>

fun find_string :: "string \<Rightarrow> string \<Rightarrow> nat option" where
  "find_string [] needle = (if needle = [] then Some 0 else None)"
| "find_string (c # cs) needle =
     (if prefix needle (c # cs) then Some 0 else map_option Suc (find_string cs needle))"

definition success_token :: string where
  \<open>success_token = ''"status":"success"''\<close>

definition wait :: "Barrier \<Rightarrow> string \<Rightarrow> wait_env \<Rightarrow> (error + bool) \<times> Barrier \<times> io_event list" where
  "wait s barrier_id env =
     (if \<not> m_connected s then (Inl NotConnectedError, s, [])
      else
        let json = make_barrier_json s barrier_id;
            sent = [SysSend (m_socket_fd s) json]
        in
          if send_result env = - 1
          then (Inr False, s,
                sent @ [Stderr (''Error sending barrier message: '' @ strerror_errno env)])
          else
            let (received, data) = sys_recv (recv_data env) (sizeof_buffer - 1);
                io = sent @ [SysRecv (m_socket_fd s) (sizeof_buffer - 1)]
            in
              if received \<le> 0
              then (Inr False, s,
                    io @ [Stderr (''Error receiving barrier response: ''
                           @ (if received = 0 then ''Connection closed''
                              else strerror_errno env))])
              else
                let buffer = data @ [NUL];
                    response = c_string buffer;
                    success = (find_string response success_token \<noteq> None)
                in (Inr success, s\<lparr>m_variables := []\<rparr>, io))"

subsection \<open>\<open>Barrier::connect\<close>, the constructor and the destructor\<close>

record connect_env =
  getenv_CODETANGO_SOCKET :: "string option"
  socket_result :: int
  connect_result :: int
  init_send_result :: int

text \<open>\<open>sizeof(addr.sun_path)\<close> of \<open>struct sockaddr_un\<close> (Linux \<open>sys/un.h\<close>).\<close>

definition sizeof_sun_path :: nat where "sizeof_sun_path = 108"

definition connect :: "Barrier \<Rightarrow> connect_env \<Rightarrow> (error + Barrier) \<times> io_event list" where
  \<open>connect s env =
     (case getenv_CODETANGO_SOCKET env of
        None \<Rightarrow> (Inl ConfigurationError, [])
      | Some socket_path \<Rightarrow>
          let s1 = s\<lparr>m_socket_fd := socket_result env\<rparr>;
              fd = m_socket_fd s1
          in
            if fd = - 1 then (Inl (ConnectionError SocketFailed), [SysSocket])
            else
              let io1 = [SysSocket, SysConnect fd (take (sizeof_sun_path - 1) (c_string socket_path))]
              in
                if connect_result env = - 1
                then (Inl (ConnectionError ConnectFailed), io1 @ [SysClose fd])
                else
                  let init_json = ''{"program_id":"'' @ m_program_id s1 @ ''"}'';
                      io2 = io1 @ [SysSend fd init_json]
                  in
                    if init_send_result env = - 1
                    then (Inl (ConnectionError InitSendFailed), io2 @ [SysClose fd])
                    else (Inr (s1\<lparr>m_connected := True\<rparr>), io2))\<close>

text \<open>
  The constructor initialises the program identifier and the connected flag,
  default-constructs the map and calls \<open>connect\<close>; the socket descriptor starts with an
  indeterminate value, the argument \<open>indeterminate_fd\<close>.
\<close>

definition Barrier_ctor ::
    "string \<Rightarrow> int \<Rightarrow> connect_env \<Rightarrow> (error + Barrier) \<times> io_event list" where
  "Barrier_ctor program_id indeterminate_fd env =
     connect \<lparr>m_program_id = program_id, m_socket_fd = indeterminate_fd,
              m_connected = False, m_variables = []\<rparr> env"

text \<open>
  The body of the destructor. It changes no field; the result keeps the fields as the
  body leaves them.
\<close>

definition Barrier_dtor :: "Barrier \<Rightarrow> Barrier \<times> io_event list" where
  "Barrier_dtor s = (if m_connected s then (s, [SysClose (m_socket_fd s)]) else (s, []))"

subsection \<open>The specification's vocabulary\<close>









text \<open>The needle stands in the haystack at offset \<open>k\<close>.\<close>

definition occurs_at :: "string \<Rightarrow> string \<Rightarrow> nat \<Rightarrow> bool" where
  "occurs_at needle haystack k = (take (length needle) (drop k haystack) = needle)"

text \<open>
  The handshake as the specification prints it, and JSON text with the whitespace
  between its tokens removed (whitespace inside a string literal is kept): two JSON
  texts that agree after it differ in insignificant whitespace only.
\<close>

definition handshake_spec :: "string \<Rightarrow> string" where
  \<open>handshake_spec program_id = ''{"program_id": "'' @ program_id @ ''"}''\<close>

definition json_whitespace :: "char \<Rightarrow> bool" where
  "json_whitespace c = (c = CHR 0x20 \<or> c = CHR 0x09 \<or> c = CHR 0x0A \<or> c = CHR 0x0D)"

datatype strip_mode = Outside | InString | Escaped

fun json_strip_ws :: "strip_mode \<Rightarrow> string \<Rightarrow> string" where
  "json_strip_ws mode [] = []"
| "json_strip_ws Outside (c # cs) =
     (if json_whitespace c then json_strip_ws Outside cs
      else c # json_strip_ws (if c = dquote then InString else Outside) cs)"
| "json_strip_ws InString (c # cs) =
     c # json_strip_ws (if c = backslash then Escaped
                        else if c = dquote then Outside else InString) cs"
| "json_strip_ws Escaped (c # cs) = c # json_strip_ws InString cs"

subsection \<open>Frame condition, stored entries and example inputs\<close>

text \<open>
  An add operation touches one entry: the lookup of \<open>name\<close> gives the new entry, every
  other lookup and the three other data members are as before.
\<close>

definition only_entry_changed :: "Barrier \<Rightarrow> Barrier \<Rightarrow> string \<Rightarrow> string \<times> string \<Rightarrow> bool" where
  "only_entry_changed s s' name entry =
     (map_of (m_variables s') = (map_of (m_variables s))(name \<mapsto> entry)
      \<and> m_program_id s' = m_program_id s
      \<and> m_socket_fd s' = m_socket_fd s
      \<and> m_connected s' = m_connected s)"


text \<open>
  Concrete inputs: a client as the constructor returns it, the environment that makes
  the constructor succeed, and coordinators that let \<open>send\<close> fail, close the connection,
  or answer with a given reply.
\<close>

definition client0 :: Barrier where
  "client0 = \<lparr>m_program_id = ''program1'', m_socket_fd = 3, m_connected = True, m_variables = []\<rparr>"

definition connect_env0 :: connect_env where
  "connect_env0 = \<lparr>getenv_CODETANGO_SOCKET = Some ''/tmp/codetango.sock'', socket_result = 3,
                    connect_result = 0, init_send_result = 25\<rparr>"

definition send_fails :: wait_env where
  "send_fails = \<lparr>send_result = - 1, recv_data = RecvError, strerror_errno = ''Broken pipe''\<rparr>"

definition peer_closed :: wait_env where
  "peer_closed = \<lparr>send_result = 36, recv_data = RecvData [], strerror_errno = []\<rparr>"

definition replies :: "string \<Rightarrow> wait_env" where
  "replies reply = \<lparr>send_result = 36, recv_data = RecvData reply, strerror_errno = []\<rparr>"



section \<open>Escaping\<close>

subsection \<open>Characters as numbers\<close>















section \<open>The registry\<close>

lemma map_of_map_assign: "map_of (map_assign k v xs) = (map_of xs)(k \<mapsto> v)"
  by (induction xs) auto




text \<open>
  Claim C9. Each of the six typed add operations inserts or overwrites the registry entry
  of the given name, so that the last write for a name is the one a lookup finds, and
  changes no other entry; the program identifier, the connection handle and the connected
  flag stay as they were.
\<close>

theorem add_changes_only_entry:
  "only_entry_changed s (add_int name i s) name (''int'', show_int (sint i))
   \<and> only_entry_changed s (add_double fmt_double name d s) name (''double'', fmt_double d)
   \<and> only_entry_changed s (add_string name str s) name (''string'', str)
   \<and> only_entry_changed s (add_bool name b s) name (''bool'', if b then ''true'' else ''false'')
   \<and> only_entry_changed s (add_int_vector name is s) name
        (''int_vector'', ''['' @ vector_loop (\<lambda>v. show_int (sint v)) is 0 @ '']'')
   \<and> only_entry_changed s (add_double_vector fmt_double name ds s) name
        (''double_vector'', ''['' @ vector_loop fmt_double ds 0 @ '']'')"
  by (simp add: only_entry_changed_def add_int_def add_double_def add_string_def add_bool_def
      add_int_vector_def add_double_vector_def map_of_map_assign)

section \<open>The barrier request\<close>


























section \<open>Waiting at a barrier\<close>

lemma find_string_sublist: "(find_string haystack needle \<noteq> None) = sublist needle haystack"
  by (induction haystack) (auto simp: sublist_Cons_right)

lemma find_string_Some: "(\<exists>k. find_string haystack needle = Some k) = sublist needle haystack"
  using find_string_sublist [of haystack needle] by simp

lemma c_string_terminated: "c_string (data @ [NUL]) = c_string data"
  unfolding c_string_def by (induction data) simp_all

lemma c_string_clean: "NUL \<notin> set xs \<Longrightarrow> c_string xs = xs"
  unfolding c_string_def by (induction xs) auto

lemma c_string_take: "\<exists>n. c_string xs = take n xs \<and> NUL \<notin> set (take n xs)"
proof -
  have "c_string xs = take (length (c_string xs)) xs"
    unfolding c_string_def by (rule takeWhile_eq_take)
  moreover have "NUL \<notin> set (c_string xs)"
    unfolding c_string_def by (auto dest: set_takeWhileD)
  ultimately show ?thesis by metis
qed

lemma wait_reply:
  assumes "m_connected s" "send_result env \<noteq> - 1" "recv_data env = RecvData reply" "reply \<noteq> []"
  shows "wait s barrier_id env =
     (Inr (sublist success_token (c_string (take 4095 reply))),
      s\<lparr>m_variables := []\<rparr>,
      [SysSend (m_socket_fd s) (make_barrier_json s barrier_id),
       SysRecv (m_socket_fd s) 4095])"
proof -
  have "take 4095 reply \<noteq> []"
    using assms(4) by simp
  then have pos: "\<not> int (length (take 4095 reply)) \<le> 0"
    by simp
  show ?thesis
    using assms(1-3) pos
    by (simp add: wait_def sys_recv_def sizeof_buffer_def Let_def find_string_Some
        c_string_terminated del: length_take take_eq_Nil)
qed

lemma sublist_occurs:
  assumes "sublist needle hay"
  obtains k where "occurs_at needle hay k" "k + length needle \<le> length hay"
proof -
  from assms obtain ps ss where "hay = ps @ needle @ ss"
    by (auto simp: sublist_def)
  then have "occurs_at needle hay (length ps)" "length ps + length needle \<le> length hay"
    by (simp_all add: occurs_at_def)
  then show thesis by (rule that)
qed

lemma occurs_at_bound:
  assumes "occurs_at needle hay k" "needle \<noteq> []"
  shows "k + length needle \<le> length hay"
proof -
  define m where "m = length needle"
  have m: "0 < m" using assms(2) by (simp add: m_def)
  have "length (take m (drop k hay)) = m"
    using assms(1) by (simp only: occurs_at_def m_def)
  then have "min (length hay - k) m = m"
    by (simp only: length_take length_drop)
  with m show ?thesis
    unfolding m_def [symmetric] by arith
qed

lemma occurs_at_prefix:
  assumes "occurs_at needle (take n hay) k" "needle \<noteq> []"
  shows "occurs_at needle hay k" "k + length needle \<le> n"
proof -
  have "k + length needle \<le> length (take n hay)"
    using assms by (rule occurs_at_bound)
  then have le: "k + length needle \<le> n" "k + length needle \<le> length hay"
    by simp_all
  have "take (length needle) (drop k (take n hay)) = take (length needle) (drop k hay)"
    using le by (simp add: drop_take min_def)
  with assms(1) show "occurs_at needle hay k" by (simp add: occurs_at_def)
  from le show "k + length needle \<le> n" by simp
qed

lemma length_success_token: "length success_token = 18"
  by (simp add: success_token_def)

lemma success_token_nonempty: "success_token \<noteq> []"
  by (simp add: success_token_def)

lemma no_token_in_view:
  assumes far: "\<forall>k. occurs_at success_token reply k \<longrightarrow> 4078 \<le> k \<or> NUL \<in> set (take k reply)"
  shows "\<not> sublist success_token (c_string (take 4095 reply))"
proof
  assume sub: "sublist success_token (c_string (take 4095 reply))"
  obtain n where n: "c_string (take 4095 reply) = take n (take 4095 reply)"
    and clean: "NUL \<notin> set (take n (take 4095 reply))"
    using c_string_take by blast
  have view: "take n (take 4095 reply) = take (min n 4095) reply"
    by simp
  from sub obtain k where k: "occurs_at success_token (take (min n 4095) reply) k"
    unfolding n view by (rule sublist_occurs)
  have occ: "occurs_at success_token reply k" and le: "k + length success_token \<le> min n 4095"
    using occurs_at_prefix [OF k success_token_nonempty] by simp_all
  from le have small: "k \<le> 4077" and kn: "k \<le> min n 4095"
    by (simp_all add: length_success_token)
  have "take k reply = take k (take (min n 4095) reply)"
    using kn by (simp add: min_def)
  then have "set (take k reply) \<subseteq> set (take (min n 4095) reply)"
    by (metis set_take_subset)
  with clean have "NUL \<notin> set (take k reply)"
    unfolding view by blast
  with far occ small show False by fastforce
qed

lemma show_int_1: "show_int 1 = ''1''"
  by code_simp

lemma escape_x: "escape_json_string ''x'' = ''x''"
  by code_simp

text \<open>
  Claim C1 says that the registry is empty after every return of \<open>wait\<close>. The two early
  returns of the source come before the call that clears the map: with one integer registered,
  a failing \<open>send\<close> and a connection closed by the peer both make \<open>wait\<close> return false
  with the entry still in the registry. (When a reply arrives the registry is emptied,
  whatever the reply says: lemma \<open>wait_reply\<close>.)
\<close>

theorem wait_failure_keeps_registry:
  \<open>wait (add_int ''x'' 1 client0) ''init'' send_fails
     = (Inr False,
        client0\<lparr>m_variables := [(''x'', ''int'', ''1'')]\<rparr>,
        [SysSend 3 ''{"barrier_id":"init","variables":{"x":1}}'',
         Stderr ''Error sending barrier message: Broken pipe''])
   \<and> wait (add_int ''x'' 1 client0) ''init'' peer_closed
     = (Inr False,
        client0\<lparr>m_variables := [(''x'', ''int'', ''1'')]\<rparr>,
        [SysSend 3 ''{"barrier_id":"init","variables":{"x":1}}'',
         SysRecv 3 4095,
         Stderr ''Error receiving barrier response: Connection closed''])\<close>
  by (simp add: wait_def add_int_def client0_def send_fails_def peer_closed_def show_int_1
      escape_x make_barrier_json_def dquote_def sys_recv_def sizeof_buffer_def Let_def
      del: escape_json_string.simps)

text \<open>
  Claim C2, as the code has it. On a client whose connected flag is false, as it is while
  construction has not completed, \<open>wait\<close> raises the not-connected error for every barrier
  identifier, performs no I/O and leaves the client, the registry included, unchanged.
\<close>

theorem wait_not_connected:
  assumes "\<not> m_connected s"
  shows "wait s barrier_id env = (Inl NotConnectedError, s, [])"
  using assms by (simp add: wait_def)

text \<open>
  The theorem at a client whose flag is still false.
\<close>

theorem wait_not_connected_witness:
  "\<not> m_connected (client0\<lparr>m_connected := False\<rparr>)
   \<and> wait (client0\<lparr>m_connected := False\<rparr>) ''init'' (replies ''ok'')
       = (Inl NotConnectedError, client0\<lparr>m_connected := False\<rparr>, [])"
  using wait_not_connected [of "client0\<lparr>m_connected := False\<rparr>" "''init''" "replies ''ok''"]
  by (simp add: client0_def)

text \<open>
  Teardown does not bring a client into that state: the destructor leaves the flag set,
  and \<open>wait\<close> on a torn-down client raises nothing and calls \<open>send\<close> on the closed
  descriptor.
\<close>

theorem wait_after_teardown_counterexample:
  \<open>wait (fst (Barrier_dtor client0)) ''init'' send_fails
     = (Inr False, client0,
        [SysSend 3 ''{"barrier_id":"init","variables":{}}'',
         Stderr ''Error sending barrier message: Broken pipe''])\<close>
  by (simp add: wait_def Barrier_dtor_def client0_def send_fails_def
      make_barrier_json_def Let_def)

text \<open>
  Claim C3, as the code has it. On a connected client whose send succeeds and whose
  receive returns at least one byte, \<open>wait\<close> returns true if and only if the received
  bytes before the first NUL byte (all of them when there is none) contain the literal
  \<open>"status":"success"\<close>; for a reply without NUL bytes that is: if and only if the
  received bytes contain it.
\<close>

theorem wait_result_success_token:
  assumes "m_connected s" "send_result env \<noteq> - 1" "recv_data env = RecvData reply" "reply \<noteq> []"
  shows "fst (wait s barrier_id env) = Inr (sublist success_token (c_string (take 4095 reply)))
         \<and> (NUL \<notin> set (take 4095 reply) \<longrightarrow>
              fst (wait s barrier_id env) = Inr (sublist success_token (take 4095 reply)))"
  using wait_reply [OF assms, of barrier_id] by (simp add: c_string_clean)

lemma view_success:
  \<open>sublist success_token (c_string (take 4095 ''{"status":"success","extra":1}''))\<close>
  by code_simp

lemma view_failure:
  \<open>\<not> sublist success_token (c_string (take 4095 ''{"status":"failure"}''))\<close>
  by code_simp

text \<open>
  The theorem at the two replies of the specification's example.
\<close>

theorem wait_result_success_token_witness:
  \<open>m_connected client0 \<and> send_result (replies ''{"status":"success","extra":1}'') \<noteq> - 1
   \<and> recv_data (replies ''{"status":"success","extra":1}'')
        = RecvData ''{"status":"success","extra":1}''
   \<and> ''{"status":"success","extra":1}'' \<noteq> []
   \<and> fst (wait client0 ''init'' (replies ''{"status":"success","extra":1}'')) = Inr True
   \<and> fst (wait client0 ''init'' (replies ''{"status":"failure"}'')) = Inr False\<close>
proof -
  have h: "m_connected client0" "send_result (replies r) \<noteq> - 1"
    "recv_data (replies r) = RecvData r" for r
    by (simp_all add: client0_def replies_def)
  have ne: \<open>''{"status":"success","extra":1}'' \<noteq> []\<close> \<open>''{"status":"failure"}'' \<noteq> []\<close>
    by simp_all
  have \<open>fst (wait client0 ''init'' (replies ''{"status":"success","extra":1}''))
      = Inr (sublist success_token (c_string (take 4095 ''{"status":"success","extra":1}'')))\<close>
    using wait_result_success_token [OF h ne(1), of "''init''"] by (rule conjunct1)
  then have a: \<open>fst (wait client0 ''init'' (replies ''{"status":"success","extra":1}'')) = Inr True\<close>
    using view_success by simp
  have \<open>fst (wait client0 ''init'' (replies ''{"status":"failure"}''))
      = Inr (sublist success_token (c_string (take 4095 ''{"status":"failure"}'')))\<close>
    using wait_result_success_token [OF h ne(2), of "''init''"] by (rule conjunct1)
  then have b: \<open>fst (wait client0 ''init'' (replies ''{"status":"failure"}'')) = Inr False\<close>
    using view_failure by simp
  show ?thesis
    using a b h ne by simp
qed

lemma nul_view: "c_string (take 4095 (NUL # success_token)) = []"
  by (simp add: c_string_def)

text \<open>
  A reply of nineteen bytes, a NUL byte followed by the literal: the received bytes
  contain the literal and \<open>wait\<close> returns false.
\<close>

theorem wait_embedded_nul_counterexample:
  "0 < length (take 4095 (NUL # success_token))
   \<and> sublist success_token (take 4095 (NUL # success_token))
   \<and> fst (wait client0 ''init'' (replies (NUL # success_token))) = Inr False"
proof -
  have "wait client0 ''init'' (replies (NUL # success_token))
      = (Inr (sublist success_token (c_string (take 4095 (NUL # success_token)))),
         client0\<lparr>m_variables := []\<rparr>,
         [SysSend (m_socket_fd client0) (make_barrier_json client0 ''init''),
          SysRecv (m_socket_fd client0) 4095])"
    by (rule wait_reply) (simp_all add: client0_def replies_def)
  then have "fst (wait client0 ''init'' (replies (NUL # success_token))) = Inr False"
    unfolding nul_view by (simp add: success_token_nonempty)
  moreover have "take 4095 (NUL # success_token) = NUL # success_token"
    by (simp add: length_success_token)
  ultimately show ?thesis
    by (simp add: sublist_Cons_right)
qed

text \<open>
  Claim C10. On a connected client whose send succeeds and that has a reply waiting,
  \<open>wait\<close> calls \<open>recv\<close> once, for 4095 bytes, and looks for the literal in the first 4095
  bytes of the reply cut at their first NUL byte. So whenever every place of the literal in
  the reply is at offset 4078 or later, or has a NUL byte before it, \<open>wait\<close> returns
  false.
\<close>

theorem wait_reply_view:
  assumes "m_connected s" "send_result env \<noteq> - 1" "recv_data env = RecvData reply" "reply \<noteq> []"
  shows "connection_io (snd (snd (wait s barrier_id env)))
           = [SysSend (m_socket_fd s) (make_barrier_json s barrier_id), SysRecv (m_socket_fd s) 4095]
         \<and> fst (wait s barrier_id env)
             = Inr (sublist success_token (takeWhile (\<lambda>c. c \<noteq> NUL) (take 4095 reply)))
         \<and> ((\<forall>k. occurs_at success_token reply k \<longrightarrow> 4078 \<le> k \<or> NUL \<in> set (take k reply))
              \<longrightarrow> fst (wait s barrier_id env) = Inr False)"
proof -
  have w: "wait s barrier_id env =
     (Inr (sublist success_token (c_string (take 4095 reply))),
      s\<lparr>m_variables := []\<rparr>,
      [SysSend (m_socket_fd s) (make_barrier_json s barrier_id), SysRecv (m_socket_fd s) 4095])"
    using assms by (rule wait_reply)
  show ?thesis
    unfolding w using no_token_in_view [of reply]
    by (simp add: c_string_def [symmetric])
qed

lemma padded_occurrence:
  assumes "occurs_at success_token (replicate n (CHR ''x'') @ success_token) k"
  shows "n \<le> k"
proof (rule ccontr)
  assume "\<not> n \<le> k"
  then obtain m where m: "n - k = Suc m" "k < n"
    by (cases "n - k") simp_all
  have d: "drop k (replicate n (CHR ''x'') @ success_token)
      = CHR ''x'' # (replicate m (CHR ''x'') @ success_token)"
    using m by simp
  from assms have "take 18 (drop k (replicate n (CHR ''x'') @ success_token)) = success_token"
    by (simp only: occurs_at_def length_success_token)
  then have "take 18 (CHR ''x'' # (replicate m (CHR ''x'') @ success_token)) = success_token"
    by (simp only: d)
  then have "hd success_token = CHR ''x''"
    by (metis hd_take list.sel(1) zero_less_numeral)
  then show False
    by (simp add: success_token_def)
qed

text \<open>
  The theorem at a reply of 4078 bytes \<open>x\<close> followed by the literal.
\<close>

theorem wait_reply_view_witness:
  "m_connected client0
   \<and> send_result (replies (replicate 4078 (CHR ''x'') @ success_token)) \<noteq> - 1
   \<and> recv_data (replies (replicate 4078 (CHR ''x'') @ success_token))
       = RecvData (replicate 4078 (CHR ''x'') @ success_token)
   \<and> replicate 4078 (CHR ''x'') @ success_token \<noteq> []
   \<and> occurs_at success_token (replicate 4078 (CHR ''x'') @ success_token) 4078
   \<and> sublist success_token (replicate 4078 (CHR ''x'') @ success_token)
   \<and> fst (wait client0 ''init'' (replies (replicate 4078 (CHR ''x'') @ success_token)))
       = Inr False"
proof -
  let ?reply = "replicate 4078 (CHR ''x'') @ success_token"
  have h: "m_connected client0" "send_result (replies ?reply) \<noteq> - 1"
    "recv_data (replies ?reply) = RecvData ?reply" "?reply \<noteq> []"
    by (simp_all add: client0_def replies_def)
  have far: "\<forall>k. occurs_at success_token ?reply k
          \<longrightarrow> 4078 \<le> k \<or> NUL \<in> set (take k ?reply)"
    using padded_occurrence [of 4078] by blast
  have "(\<forall>k. occurs_at success_token ?reply k
          \<longrightarrow> 4078 \<le> k \<or> NUL \<in> set (take k ?reply))
        \<longrightarrow> fst (wait client0 ''init'' (replies ?reply)) = Inr False"
    using wait_reply_view [OF h, of "''init''"] by blast
  with far have "fst (wait client0 ''init'' (replies ?reply)) = Inr False"
    by blast
  with h show ?thesis
    by (simp add: occurs_at_def)
qed

section \<open>Construction and teardown\<close>

lemma handshake_whitespace:
  \<open>json_strip_ws Outside (''{"program_id":"'' @ program_id @ ''"}'')
     = json_strip_ws Outside (handshake_spec program_id)\<close>
  by (simp add: handshake_spec_def json_whitespace_def dquote_def backslash_def)

lemma ctor_configuration:
  "fst (Barrier_ctor program_id fd env) = Inl ConfigurationError
     \<longleftrightarrow> getenv_CODETANGO_SOCKET env = None"
  by (simp add: Barrier_ctor_def connect_def Let_def split: option.splits)

lemma ctor_connection:
  "(\<exists>stage. fst (Barrier_ctor program_id fd env) = Inl (ConnectionError stage))
     \<longleftrightarrow> getenv_CODETANGO_SOCKET env \<noteq> None
         \<and> (socket_result env = - 1 \<or> connect_result env = - 1 \<or> init_send_result env = - 1)"
  by (auto simp: Barrier_ctor_def connect_def Let_def split: option.splits)

lemma ctor_success:
  assumes "getenv_CODETANGO_SOCKET env \<noteq> None" "socket_result env \<noteq> - 1"
    "connect_result env \<noteq> - 1" "init_send_result env \<noteq> - 1"
  shows \<open>Barrier_ctor program_id fd env =
     (Inr \<lparr>m_program_id = program_id, m_socket_fd = socket_result env,
           m_connected = True, m_variables = []\<rparr>,
      [SysSocket,
       SysConnect (socket_result env)
         (take (sizeof_sun_path - 1) (c_string (the (getenv_CODETANGO_SOCKET env)))),
       SysSend (socket_result env) (''{"program_id":"'' @ program_id @ ''"}'')])\<close>
  using assms
  by (auto simp: Barrier_ctor_def connect_def Let_def split: option.splits)

text \<open>
  Claim C6. Construction fails with the configuration error exactly when the environment
  variable is not set; it fails with a connection error exactly when the variable is set
  and creating the socket, connecting or sending the handshake fails; otherwise it returns
  a connected client with an empty registry, having sent the handshake
  \<open>{"program_id":"<programIdentifier>"}\<close>, which is the specification's
  \<open>{"program_id": "<programIdentifier>"}\<close> up to the insignificant space.
\<close>

theorem constructor_outcomes:
  \<open>(fst (Barrier_ctor program_id fd env) = Inl ConfigurationError
       \<longleftrightarrow> getenv_CODETANGO_SOCKET env = None)
   \<and> ((\<exists>stage. fst (Barrier_ctor program_id fd env) = Inl (ConnectionError stage))
       \<longleftrightarrow> getenv_CODETANGO_SOCKET env \<noteq> None
           \<and> (socket_result env = - 1 \<or> connect_result env = - 1 \<or> init_send_result env = - 1))
   \<and> (getenv_CODETANGO_SOCKET env \<noteq> None \<and> socket_result env \<noteq> - 1
        \<and> connect_result env \<noteq> - 1 \<and> init_send_result env \<noteq> - 1
       \<longrightarrow> fst (Barrier_ctor program_id fd env)
             = Inr \<lparr>m_program_id = program_id, m_socket_fd = socket_result env,
                    m_connected = True, m_variables = []\<rparr>
           \<and> sent_messages (snd (Barrier_ctor program_id fd env))
             = [''{"program_id":"'' @ program_id @ ''"}'']
           \<and> json_strip_ws Outside (''{"program_id":"'' @ program_id @ ''"}'')
             = json_strip_ws Outside (handshake_spec program_id))\<close>
proof (intro conjI impI)
  show "fst (Barrier_ctor program_id fd env) = Inl ConfigurationError
     \<longleftrightarrow> getenv_CODETANGO_SOCKET env = None"
    by (rule ctor_configuration)
  show "(\<exists>stage. fst (Barrier_ctor program_id fd env) = Inl (ConnectionError stage))
     \<longleftrightarrow> getenv_CODETANGO_SOCKET env \<noteq> None
         \<and> (socket_result env = - 1 \<or> connect_result env = - 1 \<or> init_send_result env = - 1)"
    by (rule ctor_connection)
next
  assume ok: "getenv_CODETANGO_SOCKET env \<noteq> None \<and> socket_result env \<noteq> - 1
        \<and> connect_result env \<noteq> - 1 \<and> init_send_result env \<noteq> - 1"
  then show "fst (Barrier_ctor program_id fd env)
             = Inr \<lparr>m_program_id = program_id, m_socket_fd = socket_result env,
                    m_connected = True, m_variables = []\<rparr>"
    by (simp add: ctor_success)
  from ok show \<open>sent_messages (snd (Barrier_ctor program_id fd env))
             = [''{"program_id":"'' @ program_id @ ''"}'']\<close>
    by (simp add: ctor_success)
next
  show \<open>json_strip_ws Outside (''{"program_id":"'' @ program_id @ ''"}'')
             = json_strip_ws Outside (handshake_spec program_id)\<close>
    by (rule handshake_whitespace)
qed

text \<open>
  The theorem at an environment where everything succeeds, at one without the variable
  and at one where connecting fails.
\<close>

theorem constructor_outcomes_witness:
  \<open>getenv_CODETANGO_SOCKET connect_env0 \<noteq> None \<and> socket_result connect_env0 \<noteq> - 1
   \<and> connect_result connect_env0 \<noteq> - 1 \<and> init_send_result connect_env0 \<noteq> - 1
   \<and> fst (Barrier_ctor ''program1'' 0 connect_env0) = Inr client0
   \<and> sent_messages (snd (Barrier_ctor ''program1'' 0 connect_env0))
       = [''{"program_id":"program1"}'']
   \<and> fst (Barrier_ctor ''program1'' 0 (connect_env0\<lparr>getenv_CODETANGO_SOCKET := None\<rparr>))
       = Inl ConfigurationError
   \<and> (\<exists>stage. fst (Barrier_ctor ''program1'' 0 (connect_env0\<lparr>connect_result := - 1\<rparr>))
       = Inl (ConnectionError stage))\<close>
  using constructor_outcomes [of "''program1''" 0 connect_env0]
    constructor_outcomes [of "''program1''" 0 "connect_env0\<lparr>getenv_CODETANGO_SOCKET := None\<rparr>"]
    constructor_outcomes [of "''program1''" 0 "connect_env0\<lparr>connect_result := - 1\<rparr>"]
  by (simp add: connect_env0_def client0_def)

text \<open>
  Claim C7, as the code has it. Teardown of a connected client closes the connection
  once and raises nothing; teardown of a client that is not connected closes nothing.
  The destructor changes no data member, the connected flag included: that the
  connection is closed once rests on the destructor running once for each object.
\<close>

theorem destructor_closes:
  "(m_connected s \<longrightarrow> snd (Barrier_dtor s) = [SysClose (m_socket_fd s)])
   \<and> (\<not> m_connected s \<longrightarrow> snd (Barrier_dtor s) = [])
   \<and> fst (Barrier_dtor s) = s"
  by (simp add: Barrier_dtor_def)

text \<open>
  The theorem at a connected client and at one that is not connected.
\<close>

theorem destructor_closes_witness:
  "m_connected client0
   \<and> snd (Barrier_dtor client0) = [SysClose 3]
   \<and> \<not> m_connected (client0\<lparr>m_connected := False\<rparr>)
   \<and> snd (Barrier_dtor (client0\<lparr>m_connected := False\<rparr>)) = []
   \<and> fst (Barrier_dtor client0) = client0"
  using destructor_closes [of client0] destructor_closes [of "client0\<lparr>m_connected := False\<rparr>"]
  by (simp add: client0_def)

text \<open>
  The body of the destructor applied a second time to the same client closes the same
  descriptor again.
\<close>

theorem destructor_twice_counterexample:
  "closes (snd (Barrier_dtor client0)) = [3]
   \<and> closes (snd (Barrier_dtor (fst (Barrier_dtor client0)))) = [3]"
  by (simp add: Barrier_dtor_def client0_def)

end
